theory Spec2Isabelle
  imports Complex_Main "HOL-Library.Char_ord" "HOL-Library.List_Lexorder"
begin

section \<open>Constants and paths\<close>

text \<open>
  The program is one Python script: it downloads a CSV table, label-encodes one column and
  runs a fixed sequence of guarded plotting calls, each of which saves one PNG file.
  Strings are byte lists; the Portuguese letters of the script's messages and titles are
  written as their UTF-8 bytes. The order on strings is the lexicographic order on bytes,
  which on UTF-8 text is Python's order on code points.
\<close>

definition a_tilde :: string where "a_tilde = [CHR 0xC3, CHR 0xA3]"
definition a_acute :: string where "a_acute = [CHR 0xC3, CHR 0xA1]"
definition c_cedilla :: string where "c_cedilla = [CHR 0xC3, CHR 0xA7]"
definition e_circ :: string where "e_circ = [CHR 0xC3, CHR 0xAA]"
definition i_acute :: string where "i_acute = [CHR 0xC3, CHR 0xAD]"
definition apostrophe :: string where "apostrophe = [CHR 0x27]"

text \<open>\<^verbatim>\<open>os.path.join\<close> of two components and \<^verbatim>\<open>os.path.dirname\<close>, as in \<^verbatim>\<open>posixpath\<close>.\<close>

definition startswith_sep :: "string \<Rightarrow> bool" where
  "startswith_sep b = (case b of [] \<Rightarrow> False | c # _ \<Rightarrow> c = CHR ''/'')"

definition endswith_sep :: "string \<Rightarrow> bool" where
  "endswith_sep a = startswith_sep (rev a)"

definition path_join :: "string \<Rightarrow> string \<Rightarrow> string" where
  "path_join a b =
     (if startswith_sep b then b
      else if a = [] \<or> endswith_sep a then a @ b
      else a @ ''/'' @ b)"

definition rstrip_sep :: "string \<Rightarrow> string" where
  "rstrip_sep p = rev (dropWhile (\<lambda>c. c = CHR ''/'') (rev p))"

definition dirname :: "string \<Rightarrow> string" where
  "dirname p =
     (let head = rev (dropWhile (\<lambda>c. c \<noteq> CHR ''/'') (rev p))
      in if head \<noteq> [] \<and> head \<noteq> replicate (length head) (CHR ''/'')
         then rstrip_sep head else head)"

definition DRIVE_MOUNT_PATH :: string where
  "DRIVE_MOUNT_PATH = ''/content/drive''"

definition GRAPHPATH :: string where
  "GRAPHPATH = path_join (path_join DRIVE_MOUNT_PATH ''MyDrive'') ''graficos''"

definition SUMMARYPATH :: string where
  "SUMMARYPATH = path_join (path_join DRIVE_MOUNT_PATH ''MyDrive'') ''sumarios''"

definition DEFAULT_PALETTE :: string where
  "DEFAULT_PALETTE = ''viridis''"

definition FIGSIZE :: "nat \<times> nat" where
  "FIGSIZE = (10, 6)"

definition DATASET_URL :: string where
  "DATASET_URL = ''https://docs.google.com/spreadsheets/d/1_jKH6GX7N7Vutxn4dJ_fKeLDJraLaz9jXLUKTRIiu4c/export?format=csv''"

section \<open>The dataset\<close>

text \<open>
  A pandas DataFrame is an ordered list of named columns. A column carries its dtype:
  \<^verbatim>\<open>int64\<close>, \<^verbatim>\<open>float64\<close>, \<^verbatim>\<open>bool\<close> or \<^verbatim>\<open>object\<close> (strings). Float cells are
  exact reals here; missing cells (NaN) and rounding are not modelled.
\<close>

datatype column =
    IntCol "int list"
  | FloatCol "real list"
  | BoolCol "bool list"
  | ObjCol "string list"

type_synonym dataframe = "(string \<times> column) list"

definition columns :: "dataframe \<Rightarrow> string list" where
  "columns df = map fst df"

text \<open>\<^verbatim>\<open>df[k]\<close>: the column named \<open>k\<close>, if there is one.\<close>

definition getitem :: "dataframe \<Rightarrow> string \<Rightarrow> column option" where
  "getitem df k = map_of df k"

text \<open>
  \<^verbatim>\<open>df[k] = v\<close>: pandas replaces the column named \<open>k\<close> where it stands, and appends a new
  last column when there is none.
\<close>

fun setitem :: "dataframe \<Rightarrow> string \<Rightarrow> column \<Rightarrow> dataframe" where
  "setitem [] k v = [(k, v)]"
| "setitem ((k', c) # df) k v =
     (if k' = k then (k', v) # df else (k', c) # setitem df k v)"

text \<open>\<^verbatim>\<open>df.select_dtypes(include=np.number)\<close> keeps the integer and float columns.\<close>

fun is_number :: "column \<Rightarrow> bool" where
  "is_number (IntCol _) = True"
| "is_number (FloatCol _) = True"
| "is_number (BoolCol _) = False"
| "is_number (ObjCol _) = False"

definition select_dtypes_number :: "dataframe \<Rightarrow> dataframe" where
  "select_dtypes_number df = filter (\<lambda>(n, c). is_number c) df"

text \<open>
  \<^verbatim>\<open>DataFrame.corr()\<close>: a square matrix labelled by the column names. The floating-point
  value of a coefficient is not computed: an entry records the two columns it is the
  Pearson correlation of.
\<close>

datatype coefficient = Pearson column column

record corr_matrix =
  labels :: "string list"
  cells :: "coefficient list list"

definition corr :: "dataframe \<Rightarrow> corr_matrix" where
  "corr df =
     \<lparr>labels = columns df,
      cells = map (\<lambda>a. map (\<lambda>b. Pearson a b) (map snd df)) (map snd df)\<rparr>"

section \<open>Label encoding\<close>

text \<open>
  \<^verbatim>\<open>LabelEncoder.fit_transform\<close>: the classes are the distinct values in sorted order, and
  every value is replaced by the position of its class.
\<close>

definition unique :: "'a::linorder list \<Rightarrow> 'a list" where
  "unique ys = sort (remdups ys)"

fun position :: "'a list \<Rightarrow> 'a \<Rightarrow> nat" where
  "position [] y = 0"
| "position (x # xs) y = (if x = y then 0 else Suc (position xs y))"

definition label_codes :: "'a::linorder list \<Rightarrow> int list" where
  "label_codes ys = map (\<lambda>y. int (position (unique ys) y)) ys"

fun fit_transform :: "column \<Rightarrow> column" where
  "fit_transform (IntCol ys) = IntCol (label_codes ys)"
| "fit_transform (FloatCol ys) = IntCol (label_codes ys)"
| "fit_transform (BoolCol ys) = IntCol (label_codes ys)"
| "fit_transform (ObjCol ys) = IntCol (label_codes ys)"

section \<open>Figures, files and the console\<close>

text \<open>A plotting call of seaborn, with the arguments the script passes.\<close>

datatype plot =
    Boxplot string string dataframe string "string option"
  | Histplot dataframe string bool nat string
  | Scatterplot string string dataframe real "string option" "string option" string
  | Heatmap corr_matrix bool string string real
  | Violinplot string string dataframe string "string option" bool

record figure =
  figsize :: "(nat \<times> nat) option"
  drawn :: "plot list"
  title :: string
  xticks :: "(nat \<times> string) option"

text \<open>A saved image: the figure, the \<^verbatim>\<open>dpi\<close> and the \<^verbatim>\<open>bbox_inches\<close> option.\<close>

datatype image = PNG figure nat string

text \<open>
  What a run does to the outside: the drive it mounts, the directories it creates, the
  files it writes (in order), pyplot's open figures (the current one first) and the lines
  it prints. After the dataset is loaded the state also holds the DataFrame object that
  the variable \<^verbatim>\<open>df\<close> refers to and that every generator is passed.
\<close>

record world =
  mounts :: "string list"
  dirs :: "string list"
  files :: "(string \<times> image) list"
  figures :: "figure list"
  stdout :: "string list"

record state = world +
  frame :: dataframe

definition print :: "string \<Rightarrow> 'a world_scheme \<Rightarrow> 'a world_scheme" where
  "print m s = s\<lparr>stdout := stdout s @ [m]\<rparr>"

definition mount :: "string \<Rightarrow> 'a world_scheme \<Rightarrow> 'a world_scheme" where
  "mount p s = s\<lparr>mounts := mounts s @ [p]\<rparr>"

text \<open>\<^verbatim>\<open>os.makedirs(p, exist_ok=True)\<close>; the parent directories are those of the drive.\<close>

definition makedirs :: "string \<Rightarrow> 'a world_scheme \<Rightarrow> 'a world_scheme" where
  "makedirs p s = (if p \<in> set (dirs s) then s else s\<lparr>dirs := dirs s @ [p]\<rparr>)"

definition blank :: figure where
  "blank = \<lparr>figsize = None, drawn = [], title = [], xticks = None\<rparr>"

text \<open>pyplot works on the current figure and opens a default one when none is open.\<close>

definition on_gcf :: "(figure \<Rightarrow> figure) \<Rightarrow> 'a world_scheme \<Rightarrow> 'a world_scheme" where
  "on_gcf f s =
     (case figures s of
        [] \<Rightarrow> s\<lparr>figures := [f blank]\<rparr>
      | g # gs \<Rightarrow> s\<lparr>figures := f g # gs\<rparr>)"

definition draw :: "plot \<Rightarrow> 'a world_scheme \<Rightarrow> 'a world_scheme" where
  "draw p = on_gcf (\<lambda>g. g\<lparr>drawn := drawn g @ [p]\<rparr>)"

definition plt_title :: "string \<Rightarrow> 'a world_scheme \<Rightarrow> 'a world_scheme" where
  "plt_title t = on_gcf (\<lambda>g. g\<lparr>title := t\<rparr>)"

definition plt_xticks :: "nat \<Rightarrow> string \<Rightarrow> 'a world_scheme \<Rightarrow> 'a world_scheme" where
  "plt_xticks rotation ha = on_gcf (\<lambda>g. g\<lparr>xticks := Some (rotation, ha)\<rparr>)"

definition plt_savefig :: "string \<Rightarrow> nat \<Rightarrow> string \<Rightarrow> 'a world_scheme \<Rightarrow> 'a world_scheme" where
  "plt_savefig filepath dpi bbox s =
     (let s' = on_gcf (\<lambda>g. g) s
      in case figures s' of
           [] \<Rightarrow> s'
         | g # _ \<Rightarrow> s'\<lparr>files := files s' @ [(filepath, PNG g dpi bbox)]\<rparr>)"

definition plt_close :: "'a world_scheme \<Rightarrow> 'a world_scheme" where
  "plt_close s = s\<lparr>figures := tl (figures s)\<rparr>"

section \<open>Helper functions of the script\<close>

definition save_fig :: "string \<Rightarrow> 'a world_scheme \<Rightarrow> 'a world_scheme" where
  "save_fig filename s =
     (let filepath = path_join GRAPHPATH filename
      in plt_close (plt_savefig filepath 300 ''tight'' (makedirs (dirname filepath) s)))"

definition create_figure :: "'a world_scheme \<Rightarrow> 'a world_scheme" where
  "create_figure s =
     s\<lparr>figures := \<lparr>figsize = Some FIGSIZE, drawn = [], title = [], xticks = None\<rparr> # figures s\<rparr>"

text \<open>
  Loading. The network, the decoder and the CSV parser are the environment of the run:
  each call returns a value or raises an exception, which carries its message.
\<close>

datatype exn =
    RequestException string
  | HTTPError string
  | UnicodeDecodeError string
  | ParserError string

fun str :: "exn \<Rightarrow> string" where
  "str (RequestException m) = m"
| "str (HTTPError m) = m"
| "str (UnicodeDecodeError m) = m"
| "str (ParserError m) = m"

record response =
  status_code :: nat
  reason :: string
  content :: string

record env =
  requests_get :: "string \<Rightarrow> exn + response"
  decode_utf8 :: "string \<Rightarrow> exn + string"
  read_csv :: "string \<Rightarrow> exn + dataframe"

text \<open>\<^verbatim>\<open>Response.raise_for_status\<close> raises on the client and server error codes.\<close>

definition raise_for_status :: "response \<Rightarrow> exn + unit" where
  "raise_for_status r =
     (if 400 \<le> status_code r \<and> status_code r < 600 then Inl (HTTPError (reason r))
      else Inr ())"

text \<open>The body of the \<^verbatim>\<open>try\<close> block of \<^verbatim>\<open>load_data_from_url\<close>.\<close>

definition try_load :: "env \<Rightarrow> string \<Rightarrow> exn + dataframe" where
  "try_load e url =
     (case requests_get e url of
        Inl x \<Rightarrow> Inl x
      | Inr response \<Rightarrow>
          (case raise_for_status response of
             Inl x \<Rightarrow> Inl x
           | Inr _ \<Rightarrow>
               (case decode_utf8 e (content response) of
                  Inl x \<Rightarrow> Inl x
                | Inr csv_content \<Rightarrow> read_csv e csv_content)))"

definition load_data_from_url ::
  "env \<Rightarrow> string \<Rightarrow> 'a world_scheme \<Rightarrow> dataframe option \<times> 'a world_scheme" where
  "load_data_from_url e url s =
     (case try_load e url of
        Inr df \<Rightarrow> (Some df, s)
      | Inl x \<Rightarrow> (None, print (''Erro ao carregar dados da URL: '' @ str x) s))"

section \<open>Chart generators\<close>

text \<open>
  A generator opens a figure, makes one plotting call, sets the title (and, for box and
  violin plots, the tick labels) and saves the figure. The plotting calls are recorded with
  their arguments; what seaborn renders from them is outside the model, and so is a
  plotting call that raises: the script does not catch it, and the model follows the run
  in which every library call returns. The style settings made at import time do not
  enter any file name or guard and are left out.
\<close>

definition generate_boxplot ::
  "string \<Rightarrow> string \<Rightarrow> string \<Rightarrow> string \<Rightarrow> string option \<Rightarrow> state \<Rightarrow> state" where
  "generate_boxplot x y t filename hue s =
     save_fig filename
       (plt_xticks 45 ''right''
         (plt_title t
           ((case hue of
               Some h \<Rightarrow> draw (Boxplot x y (frame s) DEFAULT_PALETTE (Some h))
             | None \<Rightarrow> draw (Boxplot x y (frame s) DEFAULT_PALETTE None))
             (create_figure s))))"

definition generate_histogram ::
  "string \<Rightarrow> string \<Rightarrow> string \<Rightarrow> nat \<Rightarrow> bool \<Rightarrow> state \<Rightarrow> state" where
  "generate_histogram col t filename bins kde s =
     save_fig filename
       (plt_title t
         (draw (Histplot (frame s) col kde bins ''skyblue'') (create_figure s)))"

definition generate_scatterplot ::
  "string \<Rightarrow> string \<Rightarrow> string \<Rightarrow> string \<Rightarrow> string option \<Rightarrow> string option \<Rightarrow> state \<Rightarrow> state" where
  "generate_scatterplot x y t filename hue style s =
     save_fig filename
       (plt_title t
         (draw (Scatterplot x y (frame s) 0.7 hue style DEFAULT_PALETTE) (create_figure s)))"

definition generate_heatmap :: "string \<Rightarrow> string \<Rightarrow> bool \<Rightarrow> state \<Rightarrow> state" where
  "generate_heatmap t filename annot s =
     (let s1 = create_figure s;
          df_numeric = select_dtypes_number (frame s1);
          c = corr df_numeric
      in save_fig filename
           (plt_title t (draw (Heatmap c annot DEFAULT_PALETTE ''.2f'' 0.5) s1)))"

definition generate_violinplot ::
  "string \<Rightarrow> string \<Rightarrow> string \<Rightarrow> string \<Rightarrow> string option \<Rightarrow> bool \<Rightarrow> state \<Rightarrow> state" where
  "generate_violinplot x y t filename hue split s =
     save_fig filename
       (plt_xticks 45 ''right''
         (plt_title t
           (draw (Violinplot x y (frame s) DEFAULT_PALETTE hue split) (create_figure s))))"

section \<open>The main sequence\<close>

definition human_cols :: "string list" where
  "human_cols =
     [''Coerencia (Humana)'', ''Relevancia (Humana)'',
      ''Profundidade (Humana)'', ''Consciencia (Humana)'']"

text \<open>The guard \<^verbatim>\<open>col in df.columns\<close>.\<close>

definition has :: "state \<Rightarrow> string \<Rightarrow> bool" where
  "has s col = (col \<in> set (columns (frame s)))"

text \<open>
  Pre-processing: the label encoding of \<^verbatim>\<open>CategoriaPrompt\<close>. The membership test on
  \<^verbatim>\<open>df.columns\<close> and the lookup \<^verbatim>\<open>df['CategoriaPrompt']\<close> that follows it are one case
  distinction on the lookup.
\<close>

definition encode :: "state \<Rightarrow> state" where
  "encode s =
     (case getitem (frame s) ''CategoriaPrompt'' of
        Some c \<Rightarrow> s\<lparr>frame := setitem (frame s) ''CategoriaPrompt_encoded'' (fit_transform c)\<rparr>
      | None \<Rightarrow>
          print (''Coluna 'CategoriaPrompt' n'' @ a_tilde @ ''o encontrada para Label Encoding.'') s)"

text \<open>The hue of the scatterplots.\<close>

definition encoded_hue :: "state \<Rightarrow> string option" where
  "encoded_hue s =
     (if has s ''CategoriaPrompt_encoded'' then Some ''CategoriaPrompt_encoded'' else None)"

text \<open>Steps 1 and 2 are loops over the four human-evaluation columns; these are their bodies.\<close>

definition hist_body :: "string \<Rightarrow> state \<Rightarrow> state" where
  "hist_body col s =
     (if has s col
      then generate_histogram col
             (''Distribui'' @ c_cedilla @ a_tilde @ ''o de '' @ col)
             (''1_hist_'' @ col @ ''.png'') 20 True s
      else print (''A coluna '' @ apostrophe @ col @ apostrophe @ '' n'' @ a_tilde
                   @ ''o foi encontrada no DataFrame.'') s)"

definition step1 :: "state \<Rightarrow> state" where
  "step1 s = fold hist_body human_cols s"

definition box_body :: "string \<Rightarrow> state \<Rightarrow> state" where
  "box_body col s =
     (if has s ''CategoriaPrompt'' \<and> has s col
      then generate_boxplot ''CategoriaPrompt'' col
             (col @ '' por Categoria de Prompt'')
             (''2_boxplot_'' @ col @ ''.png'') None s
      else print (''Colunas necess'' @ a_acute @ ''rias ('CategoriaPrompt' ou '' @ apostrophe
                   @ col @ apostrophe @ '') n'' @ a_tilde @ ''o encontradas.'') s)"

definition step2 :: "state \<Rightarrow> state" where
  "step2 s = fold box_body human_cols s"

definition step3 :: "state \<Rightarrow> state" where
  "step3 s =
     (if has s ''BLEU'' \<and> has s ''ROUGE''
      then generate_scatterplot ''BLEU'' ''ROUGE'' ''BLEU vs. ROUGE''
             ''3_scatter_bleu_rouge.png'' (encoded_hue s) None s
      else print (''Colunas 'BLEU' ou 'ROUGE' n'' @ a_tilde @ ''o encontradas.'') s)"

definition step4 :: "state \<Rightarrow> state" where
  "step4 s =
     (if has s ''Perplexidade''
      then generate_histogram ''Perplexidade''
             (''Distribui'' @ c_cedilla @ a_tilde @ ''o da Perplexidade'')
             ''4_hist_perplexidade.png'' 20 True s
      else print (''Coluna 'Perplexidade' n'' @ a_tilde @ ''o encontrada.'') s)"

definition step5 :: "state \<Rightarrow> state" where
  "step5 s =
     (if has s ''Perplexidade'' \<and> has s ''CategoriaPrompt''
      then generate_violinplot ''CategoriaPrompt'' ''Perplexidade''
             ''Perplexidade por Categoria de Prompt''
             ''5_violin_perplexidade.png'' None False s
      else print (''Colunas necess'' @ a_acute
                   @ ''rias ('CategoriaPrompt' ou 'Perplexidade') n'' @ a_tilde
                   @ ''o encontradas.'') s)"

definition step6 :: "state \<Rightarrow> state" where
  "step6 s =
     (if has s ''Perplexidade'' \<and> has s ''Coerencia (Humana)''
      then generate_scatterplot ''Perplexidade'' ''Coerencia (Humana)''
             (''Perplexidade vs. Coer'' @ e_circ @ ''ncia'')
             ''6_scatter_perplexidade_coerencia.png'' (encoded_hue s) None s
      else print (''Colunas 'Perplexidade' ou 'Coerencia (Humana)' n'' @ a_tilde
                   @ ''o encontradas.'') s)"

definition step7 :: "state \<Rightarrow> state" where
  "step7 s =
     generate_heatmap (''Heatmap de Correla'' @ c_cedilla @ a_tilde @ ''o'')
       ''7_heatmap.png'' True s"

definition step8 :: "state \<Rightarrow> state" where
  "step8 s =
     (if has s ''Diversidade'' \<and> has s ''Originalidade''
      then generate_scatterplot ''Diversidade'' ''Originalidade''
             ''Diversidade vs. Originalidade''
             ''8_scatter_diversidade_originalidade.png'' (encoded_hue s) None s
      else print (''Colunas 'Diversidade' ou 'Originalidade' n'' @ a_tilde
                   @ ''o encontradas.'') s)"

definition step9 :: "state \<Rightarrow> state" where
  "step9 s =
     (if has s ''Diversidade'' \<and> has s ''CategoriaPrompt''
      then generate_boxplot ''CategoriaPrompt'' ''Diversidade''
             ''Diversidade por Categoria de Prompt''
             ''9_boxplot_diversidade.png'' None s
      else print (''Colunas necess'' @ a_acute
                   @ ''rias ('CategoriaPrompt' ou 'Diversidade') n'' @ a_tilde
                   @ ''o encontradas.'') s)"

definition step10 :: "state \<Rightarrow> state" where
  "step10 s =
     (if has s ''Originalidade'' \<and> has s ''CategoriaPrompt''
      then generate_boxplot ''CategoriaPrompt'' ''Originalidade''
             ''Originalidade por Categoria de Prompt''
             ''10_boxplot_originalidade.png'' None s
      else print (''Colunas necess'' @ a_acute
                   @ ''rias ('CategoriaPrompt' ou 'Originalidade') n'' @ a_tilde
                   @ ''o encontradas.'') s)"

definition step11 :: "state \<Rightarrow> state" where
  "step11 s =
     (if has s ''Profundidade (Humana)'' \<and> has s ''Consciencia (Humana)''
      then generate_scatterplot ''Profundidade (Humana)'' ''Consciencia (Humana)''
             (''Profundidade vs. Consci'' @ e_circ @ ''ncia'')
             ''11_scatter_profundidade_consciencia.png'' (encoded_hue s) None s
      else print (''Colunas 'Profundidade (Humana)' ou 'Consciencia (Humana)' n'' @ a_tilde
                   @ ''o encontradas.'') s)"

definition analyses :: "state \<Rightarrow> state" where
  "analyses s =
     print (''An'' @ a_acute @ ''lise e gr'' @ a_acute @ ''ficos gerados com sucesso!'')
       (step11 (step10 (step9 (step8 (step7 (step6 (step5 (step4 (step3
         (step2 (step1 s)))))))))))"

text \<open>
  A run either leaves at \<^verbatim>\<open>exit()\<close>, before there is a dataset, or reaches the end of the
  script.
\<close>

datatype outcome = Exited world | Completed state

definition boot :: world where
  "boot = \<lparr>mounts = [], dirs = [], files = [], figures = [], stdout = []\<rparr>"

definition with_frame :: "world \<Rightarrow> dataframe \<Rightarrow> state" where
  "with_frame w df =
     \<lparr>mounts = mounts w, dirs = dirs w, files = files w, figures = figures w,
      stdout = stdout w, frame = df\<rparr>"

definition main :: "env \<Rightarrow> outcome" where
  "main e =
     (let w = makedirs SUMMARYPATH (makedirs GRAPHPATH (mount DRIVE_MOUNT_PATH boot))
      in case load_data_from_url e DATASET_URL w of
           (None, w') \<Rightarrow>
             Exited (print (''N'' @ a_tilde @ ''o foi poss'' @ i_acute
                             @ ''vel carregar os dados. Encerrando.'') w')
         | (Some df, w') \<Rightarrow> Completed (analyses (encode (with_frame w' df))))"

text \<open>What a run leaves behind, whichever way it ends.\<close>

fun written :: "outcome \<Rightarrow> (string \<times> image) list" where
  "written (Exited w) = files w"
| "written (Completed s) = files s"


fun made :: "outcome \<Rightarrow> string list" where
  "made (Exited w) = dirs w"
| "made (Completed s) = dirs s"

definition artifacts :: "outcome \<Rightarrow> string list" where
  "artifacts r = map fst (written r)"

section \<open>The charts as a table\<close>

text \<open>
  The seventeen guarded calls of the main sequence, read off the script one by one and
  collected in a table. Below, the sequence is shown to be a loop over this table, so that
  what a run writes and prints can be stated per chart.
\<close>

text \<open>
  The figure each generator has drawn when it saves: one plotting call on a new figure of
  the configured size, the title, and for box and violin plots the rotated tick labels.
\<close>

definition new_figure :: "plot \<Rightarrow> string \<Rightarrow> (nat \<times> string) option \<Rightarrow> figure" where
  "new_figure p t xt = \<lparr>figsize = Some FIGSIZE, drawn = [p], title = t, xticks = xt\<rparr>"

definition boxplot_figure :: "dataframe \<Rightarrow> string \<Rightarrow> string \<Rightarrow> string \<Rightarrow> string option \<Rightarrow> figure" where
  "boxplot_figure df x y t hue =
     new_figure (Boxplot x y df DEFAULT_PALETTE hue) t (Some (45, ''right''))"

definition histogram_figure :: "dataframe \<Rightarrow> string \<Rightarrow> string \<Rightarrow> nat \<Rightarrow> bool \<Rightarrow> figure" where
  "histogram_figure df col t bins kde =
     new_figure (Histplot df col kde bins ''skyblue'') t None"

definition scatterplot_figure ::
  "dataframe \<Rightarrow> string \<Rightarrow> string \<Rightarrow> string \<Rightarrow> string option \<Rightarrow> string option \<Rightarrow> figure" where
  "scatterplot_figure df x y t hue style =
     new_figure (Scatterplot x y df 0.7 hue style DEFAULT_PALETTE) t None"

definition heatmap_figure :: "dataframe \<Rightarrow> string \<Rightarrow> bool \<Rightarrow> figure" where
  "heatmap_figure df t annot =
     new_figure (Heatmap (corr (select_dtypes_number df)) annot DEFAULT_PALETTE ''.2f'' 0.5) t None"

definition violinplot_figure ::
  "dataframe \<Rightarrow> string \<Rightarrow> string \<Rightarrow> string \<Rightarrow> string option \<Rightarrow> bool \<Rightarrow> figure" where
  "violinplot_figure df x y t hue split =
     new_figure (Violinplot x y df DEFAULT_PALETTE hue split) t (Some (45, ''right''))"

text \<open>Saving a finished figure under a file name of the graphics directory.\<close>

definition emit :: "string \<Rightarrow> figure \<Rightarrow> state \<Rightarrow> state" where
  "emit filename g s =
     (makedirs (dirname (path_join GRAPHPATH filename)) s)
       \<lparr>files := files s @ [(path_join GRAPHPATH filename, PNG g 300 ''tight'')]\<rparr>"

text \<open>
  A chart of the report: the columns its guard asks for, its file name, the figure it
  draws from the dataset, and the line printed when the guard fails.
\<close>

datatype chart =
  Chart (required: "string list") (filename: string) (render: "dataframe \<Rightarrow> figure")
    (message: string)

definition perform :: "chart \<Rightarrow> state \<Rightarrow> state" where
  "perform c s =
     (if set (required c) \<subseteq> set (columns (frame s))
      then emit (filename c) (render c (frame s)) s
      else print (message c) s)"

definition hue_of :: "dataframe \<Rightarrow> string option" where
  "hue_of df =
     (if ''CategoriaPrompt_encoded'' \<in> set (columns df) then Some ''CategoriaPrompt_encoded''
      else None)"

definition hist_chart :: "string \<Rightarrow> chart" where
  "hist_chart col =
     Chart [col] (''1_hist_'' @ col @ ''.png'')
       (\<lambda>df. histogram_figure df col (''Distribui'' @ c_cedilla @ a_tilde @ ''o de '' @ col)
               20 True)
       (''A coluna '' @ apostrophe @ col @ apostrophe @ '' n'' @ a_tilde
          @ ''o foi encontrada no DataFrame.'')"

definition box_chart :: "string \<Rightarrow> chart" where
  "box_chart col =
     Chart [''CategoriaPrompt'', col] (''2_boxplot_'' @ col @ ''.png'')
       (\<lambda>df. boxplot_figure df ''CategoriaPrompt'' col (col @ '' por Categoria de Prompt'') None)
       (''Colunas necess'' @ a_acute @ ''rias ('CategoriaPrompt' ou '' @ apostrophe
          @ col @ apostrophe @ '') n'' @ a_tilde @ ''o encontradas.'')"

definition scatter_chart :: "string \<Rightarrow> string \<Rightarrow> string \<Rightarrow> string \<Rightarrow> string \<Rightarrow> chart" where
  "scatter_chart x y t fn msg =
     Chart [x, y] fn (\<lambda>df. scatterplot_figure df x y t (hue_of df) None) msg"

definition chart3 :: chart where
  "chart3 = scatter_chart ''BLEU'' ''ROUGE'' ''BLEU vs. ROUGE'' ''3_scatter_bleu_rouge.png''
     (''Colunas 'BLEU' ou 'ROUGE' n'' @ a_tilde @ ''o encontradas.'')"

definition chart4 :: chart where
  "chart4 =
     Chart [''Perplexidade''] ''4_hist_perplexidade.png''
       (\<lambda>df. histogram_figure df ''Perplexidade''
               (''Distribui'' @ c_cedilla @ a_tilde @ ''o da Perplexidade'') 20 True)
       (''Coluna 'Perplexidade' n'' @ a_tilde @ ''o encontrada.'')"

definition chart5 :: chart where
  "chart5 =
     Chart [''Perplexidade'', ''CategoriaPrompt''] ''5_violin_perplexidade.png''
       (\<lambda>df. violinplot_figure df ''CategoriaPrompt'' ''Perplexidade''
               ''Perplexidade por Categoria de Prompt'' None False)
       (''Colunas necess'' @ a_acute @ ''rias ('CategoriaPrompt' ou 'Perplexidade') n''
          @ a_tilde @ ''o encontradas.'')"

definition chart6 :: chart where
  "chart6 = scatter_chart ''Perplexidade'' ''Coerencia (Humana)''
     (''Perplexidade vs. Coer'' @ e_circ @ ''ncia'') ''6_scatter_perplexidade_coerencia.png''
     (''Colunas 'Perplexidade' ou 'Coerencia (Humana)' n'' @ a_tilde @ ''o encontradas.'')"

definition chart7 :: chart where
  "chart7 =
     Chart [] ''7_heatmap.png''
       (\<lambda>df. heatmap_figure df (''Heatmap de Correla'' @ c_cedilla @ a_tilde @ ''o'') True) []"

definition chart8 :: chart where
  "chart8 = scatter_chart ''Diversidade'' ''Originalidade'' ''Diversidade vs. Originalidade''
     ''8_scatter_diversidade_originalidade.png''
     (''Colunas 'Diversidade' ou 'Originalidade' n'' @ a_tilde @ ''o encontradas.'')"

definition chart9 :: chart where
  "chart9 =
     Chart [''Diversidade'', ''CategoriaPrompt''] ''9_boxplot_diversidade.png''
       (\<lambda>df. boxplot_figure df ''CategoriaPrompt'' ''Diversidade''
               ''Diversidade por Categoria de Prompt'' None)
       (''Colunas necess'' @ a_acute @ ''rias ('CategoriaPrompt' ou 'Diversidade') n''
          @ a_tilde @ ''o encontradas.'')"

definition chart10 :: chart where
  "chart10 =
     Chart [''Originalidade'', ''CategoriaPrompt''] ''10_boxplot_originalidade.png''
       (\<lambda>df. boxplot_figure df ''CategoriaPrompt'' ''Originalidade''
               ''Originalidade por Categoria de Prompt'' None)
       (''Colunas necess'' @ a_acute @ ''rias ('CategoriaPrompt' ou 'Originalidade') n''
          @ a_tilde @ ''o encontradas.'')"

definition chart11 :: chart where
  "chart11 = scatter_chart ''Profundidade (Humana)'' ''Consciencia (Humana)''
     (''Profundidade vs. Consci'' @ e_circ @ ''ncia'') ''11_scatter_profundidade_consciencia.png''
     (''Colunas 'Profundidade (Humana)' ou 'Consciencia (Humana)' n'' @ a_tilde
        @ ''o encontradas.'')"

definition chart_table :: "chart list" where
  "chart_table =
     map hist_chart human_cols @ map box_chart human_cols @
     [chart3, chart4, chart5, chart6, chart7, chart8, chart9, chart10, chart11]"

text \<open>What a chart contributes to the files and to the console, for a given dataset.\<close>

definition present :: "dataframe \<Rightarrow> chart \<Rightarrow> bool" where
  "present df c = (set (required c) \<subseteq> set (columns df))"

definition produce :: "dataframe \<Rightarrow> chart \<Rightarrow> (string \<times> image) list" where
  "produce df c =
     (if present df c
      then [(path_join GRAPHPATH (filename c), PNG (render c df) 300 ''tight'')] else [])"


definition farewell :: string where
  "farewell = ''An'' @ a_acute @ ''lise e gr'' @ a_acute @ ''ficos gerados com sucesso!''"

definition encoder_message :: string where
  "encoder_message =
     ''Coluna 'CategoriaPrompt' n'' @ a_tilde @ ''o encontrada para Label Encoding.''"

definition exit_message :: string where
  "exit_message =
     ''N'' @ a_tilde @ ''o foi poss'' @ i_acute @ ''vel carregar os dados. Encerrando.''"

text \<open>The dataset after the encoding stage.\<close>

definition augmented :: "dataframe \<Rightarrow> dataframe" where
  "augmented df =
     (case getitem df ''CategoriaPrompt'' of
        Some c \<Rightarrow> setitem df ''CategoriaPrompt_encoded'' (fit_transform c)
      | None \<Rightarrow> df)"

text \<open>The ten columns the script looks for.\<close>

definition expected_columns :: "string list" where
  "expected_columns =
     [''CategoriaPrompt'', ''Coerencia (Humana)'', ''Relevancia (Humana)'',
      ''Profundidade (Humana)'', ''Consciencia (Humana)'', ''BLEU'', ''ROUGE'',
      ''Perplexidade'', ''Diversidade'', ''Originalidade'']"

text \<open>An environment in which the download and the parsing succeed and yield \<open>df\<close>.\<close>

definition serving :: "dataframe \<Rightarrow> env" where
  "serving df =
     \<lparr>requests_get = (\<lambda>url. Inr \<lparr>status_code = 200, reason = ''OK'', content = []\<rparr>),
      decode_utf8 = (\<lambda>b. Inr b),
      read_csv = (\<lambda>t. Inr df)\<rparr>"

definition sample_df :: dataframe where
  "sample_df =
     [(''CategoriaPrompt'', ObjCol [''tecnico'', ''criativo'', ''tecnico'']),
      (''Coerencia (Humana)'', IntCol [4, 3, 5]),
      (''Relevancia (Humana)'', IntCol [5, 3, 4]),
      (''Profundidade (Humana)'', IntCol [2, 4, 4]),
      (''Consciencia (Humana)'', IntCol [1, 2, 5]),
      (''BLEU'', IntCol [31, 12, 25]),
      (''ROUGE'', IntCol [40, 22, 37]),
      (''Perplexidade'', IntCol [18, 35, 21]),
      (''Diversidade'', IntCol [7, 9, 6]),
      (''Originalidade'', IntCol [3, 8, 5])]"

text \<open>The world once the drive is mounted and the two directories exist.\<close>

definition started :: world where
  "started =
     \<lparr>mounts = [DRIVE_MOUNT_PATH], dirs = [GRAPHPATH, SUMMARYPATH], files = [], figures = [],
      stdout = []\<rparr>"



text \<open>
  The ways an acquisition can fail: a network error, an HTTP error status, a body that is
  not UTF-8, a body that is not CSV.
\<close>

definition acquisition_fails :: "env \<Rightarrow> string \<Rightarrow> bool" where
  "acquisition_fails e url =
     (case requests_get e url of
        Inl _ \<Rightarrow> True
      | Inr r \<Rightarrow>
          (400 \<le> status_code r \<and> status_code r < 600) \<or>
          (case decode_utf8 e (content r) of
             Inl _ \<Rightarrow> True
           | Inr t \<Rightarrow> (case read_csv e t of Inl _ \<Rightarrow> True | Inr _ \<Rightarrow> False)))"

text \<open>An environment in which the server answers 404.\<close>

definition not_found :: env where
  "not_found =
     \<lparr>requests_get = (\<lambda>url. Inr \<lparr>status_code = 404, reason = ''404 Client Error: Not Found'',
                                  content = []\<rparr>),
      decode_utf8 = (\<lambda>b. Inr b),
      read_csv = (\<lambda>t. Inr sample_df)\<rparr>"


text \<open>The sample dataset without its \<^verbatim>\<open>CategoriaPrompt\<close> column.\<close>

definition no_categoria :: dataframe where
  "no_categoria = filter (\<lambda>(n, c). n \<noteq> ''CategoriaPrompt'') sample_df"

text \<open>A dataset that already has a column named \<^verbatim>\<open>CategoriaPrompt_encoded\<close>.\<close>

definition clash_df :: dataframe where
  "clash_df =
     [(''CategoriaPrompt'', ObjCol [''b'', ''a'']),
      (''CategoriaPrompt_encoded'', ObjCol [''x'', ''y''])]"



text \<open>The number of distinct values of a column.\<close>

fun nunique :: "column \<Rightarrow> nat" where
  "nunique (IntCol ys) = card (set ys)"
| "nunique (FloatCol ys) = card (set ys)"
| "nunique (BoolCol ys) = card (set ys)"
| "nunique (ObjCol ys) = card (set ys)"

text \<open>
  A coding by rank: the code of every value is its position in the list of the distinct
  values in ascending order, counted from 0.
\<close>

definition coded_by_rank :: "'a::linorder list \<Rightarrow> int list \<Rightarrow> bool" where
  "coded_by_rank ys codes \<longleftrightarrow>
     length codes = length ys \<and>
     (\<forall>k < length ys.
        0 \<le> codes ! k \<and> nat (codes ! k) < length (sorted_list_of_set (set ys)) \<and>
        sorted_list_of_set (set ys) ! nat (codes ! k) = ys ! k)"

fun column_coded_by_rank :: "column \<Rightarrow> int list \<Rightarrow> bool" where
  "column_coded_by_rank (IntCol ys) codes = coded_by_rank ys codes"
| "column_coded_by_rank (FloatCol ys) codes = coded_by_rank ys codes"
| "column_coded_by_rank (BoolCol ys) codes = coded_by_rank ys codes"
| "column_coded_by_rank (ObjCol ys) codes = coded_by_rank ys codes"

text \<open>The dataset at the end of a run, if the run got one.\<close>

fun dataset_of :: "outcome \<Rightarrow> dataframe option" where
  "dataset_of (Exited w) = None"
| "dataset_of (Completed s) = Some (frame s)"

section \<open>The generators and the table\<close>

lemma GRAPHPATH_eq: "GRAPHPATH = ''/content/drive/MyDrive/graficos''"
  by (simp add: GRAPHPATH_def DRIVE_MOUNT_PATH_def path_join_def startswith_sep_def endswith_sep_def)

lemma SUMMARYPATH_eq: "SUMMARYPATH = ''/content/drive/MyDrive/sumarios''"
  by (simp add: SUMMARYPATH_def DRIVE_MOUNT_PATH_def path_join_def startswith_sep_def endswith_sep_def)

lemmas pyplot_defs = save_fig_def plt_close_def plt_savefig_def on_gcf_def makedirs_def Let_def
  plt_title_def plt_xticks_def draw_def create_figure_def emit_def new_figure_def

lemma generate_histogram_emit:
  "generate_histogram col t fn bins kde s = emit fn (histogram_figure (frame s) col t bins kde) s"
  by (simp add: generate_histogram_def histogram_figure_def pyplot_defs)

lemma generate_boxplot_emit:
  "generate_boxplot x y t fn hue s = emit fn (boxplot_figure (frame s) x y t hue) s"
  by (cases hue) (simp_all add: generate_boxplot_def boxplot_figure_def pyplot_defs)

lemma generate_scatterplot_emit:
  "generate_scatterplot x y t fn hue style s =
     emit fn (scatterplot_figure (frame s) x y t hue style) s"
  by (simp add: generate_scatterplot_def scatterplot_figure_def pyplot_defs)

lemma generate_heatmap_emit:
  "generate_heatmap t fn annot s = emit fn (heatmap_figure (frame s) t annot) s"
  by (simp add: generate_heatmap_def heatmap_figure_def pyplot_defs)

lemma generate_violinplot_emit:
  "generate_violinplot x y t fn hue split s =
     emit fn (violinplot_figure (frame s) x y t hue split) s"
  by (simp add: generate_violinplot_def violinplot_figure_def pyplot_defs)

lemmas generate_emit = generate_histogram_emit generate_boxplot_emit generate_scatterplot_emit
  generate_heatmap_emit generate_violinplot_emit

lemma hist_body_perform: "hist_body col s = perform (hist_chart col) s"
  by (simp add: hist_body_def perform_def hist_chart_def has_def generate_emit)

lemma box_body_perform: "box_body col s = perform (box_chart col) s"
  by (simp add: box_body_def perform_def box_chart_def has_def generate_emit)

lemma fold_map_perform:
  "(\<And>x s. f x s = perform (g x) s) \<Longrightarrow> fold f xs s = fold perform (map g xs) s"
  by (induction xs arbitrary: s) simp_all

lemma step1_perform: "step1 s = fold perform (map hist_chart human_cols) s"
  unfolding step1_def by (rule fold_map_perform) (rule hist_body_perform)

lemma step2_perform: "step2 s = fold perform (map box_chart human_cols) s"
  unfolding step2_def by (rule fold_map_perform) (rule box_body_perform)

lemma encoded_hue_eq: "encoded_hue s = hue_of (frame s)"
  by (simp add: encoded_hue_def hue_of_def has_def)

lemma step3_perform: "step3 s = perform chart3 s"
  by (simp add: step3_def perform_def chart3_def scatter_chart_def has_def generate_emit
      encoded_hue_eq)

lemma step4_perform: "step4 s = perform chart4 s"
  by (simp add: step4_def perform_def chart4_def has_def generate_emit)

lemma step5_perform: "step5 s = perform chart5 s"
  by (simp add: step5_def perform_def chart5_def has_def generate_emit)

lemma step6_perform: "step6 s = perform chart6 s"
  by (simp add: step6_def perform_def chart6_def scatter_chart_def has_def generate_emit
      encoded_hue_eq)

lemma step7_perform: "step7 s = perform chart7 s"
  by (simp add: step7_def perform_def chart7_def generate_emit)

lemma step8_perform: "step8 s = perform chart8 s"
  by (simp add: step8_def perform_def chart8_def scatter_chart_def has_def generate_emit
      encoded_hue_eq)

lemma step9_perform: "step9 s = perform chart9 s"
  by (simp add: step9_def perform_def chart9_def has_def generate_emit)

lemma step10_perform: "step10 s = perform chart10 s"
  by (simp add: step10_def perform_def chart10_def has_def generate_emit)

lemma step11_perform: "step11 s = perform chart11 s"
  by (simp add: step11_def perform_def chart11_def scatter_chart_def has_def generate_emit
      encoded_hue_eq)

lemmas step_perform = step1_perform step2_perform step3_perform step4_perform step5_perform
  step6_perform step7_perform step8_perform step9_perform step10_perform step11_perform

text \<open>The hand-written sequence of guarded calls is one loop over the table.\<close>

lemma analyses_table: "analyses s = print farewell (fold perform chart_table s)"
  by (simp only: analyses_def step_perform chart_table_def fold_append fold_simps comp_apply
      id_apply farewell_def)

lemma frame_perform: "frame (perform c s) = frame s"
  by (simp add: perform_def emit_def makedirs_def print_def)

lemma files_perform: "files (perform c s) = files s @ produce (frame s) c"
  by (simp add: perform_def produce_def present_def emit_def makedirs_def print_def)


lemma frame_fold_perform: "frame (fold perform cs s) = frame s"
  by (induction cs arbitrary: s) (simp_all add: frame_perform)

lemma files_fold_perform:
  "files (fold perform cs s) = files s @ concat (map (produce (frame s)) cs)"
  by (induction cs arbitrary: s) (simp_all add: frame_perform files_perform)


lemma frame_analyses: "frame (analyses s) = frame s"
  by (simp add: analyses_table print_def frame_fold_perform)

lemma files_analyses: "files (analyses s) = files s @ concat (map (produce (frame s)) chart_table)"
  by (simp add: analyses_table print_def files_fold_perform)


section \<open>The encoding stage and the whole run\<close>

lemma getitem_None_iff: "getitem df k = None \<longleftrightarrow> k \<notin> set (columns df)"
  by (simp add: getitem_def columns_def map_of_eq_None_iff)

lemma columns_setitem:
  "columns (setitem df k v) = (if k \<in> set (columns df) then columns df else columns df @ [k])"
  by (induction df) (fastforce simp: columns_def)+

lemma getitem_setitem: "getitem (setitem df k v) k' = (if k' = k then Some v else getitem df k')"
  by (induction df) (auto simp: getitem_def)

lemma setitem_absent: "k \<notin> set (columns df) \<Longrightarrow> setitem df k v = df @ [(k, v)]"
  by (induction df) (auto simp: columns_def)

lemma frame_encode: "frame (encode s) = augmented (frame s)"
  by (simp add: encode_def augmented_def print_def split: option.splits)

lemma files_encode: "files (encode s) = files s"
  by (simp add: encode_def print_def split: option.splits)


lemma set_columns_augmented:
  "set (columns (augmented df)) =
     set (columns df) \<union>
     (if ''CategoriaPrompt'' \<in> set (columns df) then {''CategoriaPrompt_encoded''} else {})"
  using getitem_None_iff [of df "''CategoriaPrompt''"]
  by (auto simp: augmented_def columns_setitem split: option.splits if_splits)

lemma startup: "makedirs SUMMARYPATH (makedirs GRAPHPATH (mount DRIVE_MOUNT_PATH boot)) = started"
  by (simp add: makedirs_def mount_def boot_def started_def GRAPHPATH_eq SUMMARYPATH_eq)

lemma main_loaded:
  "try_load e DATASET_URL = Inr df \<Longrightarrow>
     main e = Completed (analyses (encode (with_frame started df)))"
  by (simp add: main_def startup load_data_from_url_def)

lemma main_failed:
  "try_load e DATASET_URL = Inl x \<Longrightarrow>
     main e =
       Exited (started\<lparr>stdout := [''Erro ao carregar dados da URL: '' @ str x, exit_message]\<rparr>)"
  by (simp add: main_def startup load_data_from_url_def print_def started_def exit_message_def)

lemma written_main:
  "try_load e DATASET_URL = Inr df \<Longrightarrow>
     written (main e) = concat (map (produce (augmented df)) chart_table)"
  by (simp add: main_loaded files_analyses frame_encode files_encode with_frame_def started_def)


lemma try_load_serving: "try_load (serving df) url = Inr df"
  by (simp add: try_load_def serving_def raise_for_status_def)

section \<open>Which charts a run produces\<close>

lemma artifacts_produce:
  "map fst (concat (map (produce df) cs)) =
     map (\<lambda>c. path_join GRAPHPATH (filename c)) (filter (present df) cs)"
  by (induction cs) (simp_all add: produce_def)


lemma table_required: "c \<in> set chart_table \<Longrightarrow> set (required c) \<subseteq> set expected_columns"
  by (auto simp: chart_table_def human_cols_def hist_chart_def box_chart_def scatter_chart_def
      chart3_def chart4_def chart5_def chart6_def chart7_def chart8_def chart9_def chart10_def
      chart11_def expected_columns_def)

lemma present_augmented:
  assumes "c \<in> set chart_table"
  shows "present (augmented df) c = present df c"
proof -
  have "''CategoriaPrompt_encoded'' \<notin> set expected_columns"
    by (simp add: expected_columns_def)
  with table_required [OF assms] have "''CategoriaPrompt_encoded'' \<notin> set (required c)"
    by blast
  then show ?thesis
    by (auto simp: present_def set_columns_augmented)
qed

lemma filter_present_augmented:
  "filter (present (augmented df)) chart_table = filter (present df) chart_table"
  by (rule filter_cong) (simp_all add: present_augmented)


lemma artifacts_main:
  "try_load e DATASET_URL = Inr df \<Longrightarrow>
     artifacts (main e) =
       map (\<lambda>c. path_join GRAPHPATH (filename c)) (filter (present df) chart_table)"
  by (simp add: artifacts_def written_main artifacts_produce filter_present_augmented)


lemma table_filenames:
  "map filename chart_table =
     [''1_hist_Coerencia (Humana).png'', ''1_hist_Relevancia (Humana).png'',
      ''1_hist_Profundidade (Humana).png'', ''1_hist_Consciencia (Humana).png'',
      ''2_boxplot_Coerencia (Humana).png'', ''2_boxplot_Relevancia (Humana).png'',
      ''2_boxplot_Profundidade (Humana).png'', ''2_boxplot_Consciencia (Humana).png'',
      ''3_scatter_bleu_rouge.png'', ''4_hist_perplexidade.png'', ''5_violin_perplexidade.png'',
      ''6_scatter_perplexidade_coerencia.png'', ''7_heatmap.png'',
      ''8_scatter_diversidade_originalidade.png'', ''9_boxplot_diversidade.png'',
      ''10_boxplot_originalidade.png'', ''11_scatter_profundidade_consciencia.png'']"
  by (simp add: chart_table_def human_cols_def hist_chart_def box_chart_def scatter_chart_def
      chart3_def chart4_def chart5_def chart6_def chart7_def chart8_def chart9_def chart10_def
      chart11_def)

lemma all_present:
  "set expected_columns \<subseteq> set (columns df) \<Longrightarrow> filter (present df) chart_table = chart_table"
  using table_required by (fastforce simp: present_def filter_id_conv)

lemma artifacts_full:
  assumes "try_load e DATASET_URL = Inr df" and "set expected_columns \<subseteq> set (columns df)"
  shows "artifacts (main e) = map (path_join GRAPHPATH) (map filename chart_table)"
  by (simp add: artifacts_main [OF assms(1)] all_present [OF assms(2)] comp_def)













section \<open>Properties of the label encoding\<close>

lemma position_less: "y \<in> set xs \<Longrightarrow> position xs y < length xs"
  by (induction xs) auto

lemma nth_position: "y \<in> set xs \<Longrightarrow> xs ! position xs y = y"
  by (induction xs) auto

lemma position_inj: "y \<in> set xs \<Longrightarrow> z \<in> set xs \<Longrightarrow> position xs y = position xs z \<Longrightarrow> y = z"
  by (metis nth_position)

lemma unique_sorted_list: "unique ys = sorted_list_of_set (set ys)"
  by (simp add: unique_def sorted_list_of_set_sort_remdups)

lemma set_unique: "set (unique ys) = set ys"
  by (simp add: unique_def)

lemma label_codes_by_rank: "coded_by_rank ys (label_codes ys)"
  unfolding coded_by_rank_def unique_sorted_list [symmetric]
  by (simp add: label_codes_def position_less nth_position set_unique)

lemma coded_by_rank_unique:
  assumes "coded_by_rank ys cs" and "coded_by_rank ys cs'"
  shows "cs = cs'"
proof (rule nth_equalityI)
  show "length cs = length cs'"
    using assms by (simp add: coded_by_rank_def)
next
  fix k assume "k < length cs"
  then have k: "k < length ys"
    using assms(1) by (simp add: coded_by_rank_def)
  let ?l = "sorted_list_of_set (set ys)"
  from assms k have a: "0 \<le> cs ! k" "nat (cs ! k) < length ?l" "?l ! nat (cs ! k) = ys ! k"
    and b: "0 \<le> cs' ! k" "nat (cs' ! k) < length ?l" "?l ! nat (cs' ! k) = ys ! k"
    by (simp_all add: coded_by_rank_def)
  have "distinct ?l" by simp
  with a b have "nat (cs ! k) = nat (cs' ! k)"
    by (metis nth_eq_iff_index_eq)
  with a(1) b(1) show "cs ! k = cs' ! k"
    by simp
qed

lemma card_label_codes: "card (set (label_codes ys)) = card (set ys)"
proof -
  have "inj_on (\<lambda>y. int (position (unique ys) y)) (set ys)"
    using position_inj [of _ "unique ys"] by (auto simp: inj_on_def set_unique)
  then have "card ((\<lambda>y. int (position (unique ys) y)) ` set ys) = card (set ys)"
    by (rule card_image)
  then show ?thesis
    by (simp add: label_codes_def)
qed

lemma fit_transform_codes:
  "\<exists>codes. fit_transform c = IntCol codes \<and> column_coded_by_rank c codes
     \<and> card (set codes) = nunique c"
  by (cases c) (simp_all add: label_codes_by_rank card_label_codes)

lemma column_coded_by_rank_unique:
  "column_coded_by_rank c cs \<Longrightarrow> column_coded_by_rank c cs' \<Longrightarrow> cs = cs'"
  by (cases c) (simp_all add: coded_by_rank_unique)

lemma sample_codes: "label_codes [''tecnico'', ''criativo'', ''tecnico''] = [1, 0, 1]"
  by (simp add: label_codes_def unique_def)

section \<open>The claims\<close>

subsection \<open>C1: the artifacts of a run on a complete dataset\<close>

lemma sample_complete: "set expected_columns \<subseteq> set (columns sample_df)"
  by (simp add: expected_columns_def sample_df_def columns_def)

text \<open>
  C1, as stated, fails: on the sample dataset, which has all ten expected columns, a run
  writes seventeen images and not eleven.
\<close>

theorem eleven_artifacts_counterexample:
  "set expected_columns \<subseteq> set (columns sample_df)
   \<and> length (artifacts (main (serving sample_df))) = 17
   \<and> length (artifacts (main (serving sample_df))) \<noteq> 11"
  by (simp add: artifacts_full [OF try_load_serving sample_complete] table_filenames
      sample_complete)

text \<open>
  C1, amended: for a dataset containing every expected column, one full run of the main
  sequence produces exactly seventeen image artifacts (four histograms in step 1, four
  boxplots in step 2 and one image for each of the steps 3 to 11), each written under its
  fixed filename in the output directory.
\<close>

theorem full_dataset_seventeen_artifacts:
  assumes "try_load e DATASET_URL = Inr df" and "set expected_columns \<subseteq> set (columns df)"
  shows "artifacts (main e) =
           map (path_join GRAPHPATH)
             [''1_hist_Coerencia (Humana).png'', ''1_hist_Relevancia (Humana).png'',
              ''1_hist_Profundidade (Humana).png'', ''1_hist_Consciencia (Humana).png'',
              ''2_boxplot_Coerencia (Humana).png'', ''2_boxplot_Relevancia (Humana).png'',
              ''2_boxplot_Profundidade (Humana).png'', ''2_boxplot_Consciencia (Humana).png'',
              ''3_scatter_bleu_rouge.png'', ''4_hist_perplexidade.png'',
              ''5_violin_perplexidade.png'', ''6_scatter_perplexidade_coerencia.png'',
              ''7_heatmap.png'', ''8_scatter_diversidade_originalidade.png'',
              ''9_boxplot_diversidade.png'', ''10_boxplot_originalidade.png'',
              ''11_scatter_profundidade_consciencia.png'']
         \<and> length (artifacts (main e)) = 17
         \<and> distinct (artifacts (main e))
         \<and> (\<forall>p \<in> set (artifacts (main e)). dirname p = GRAPHPATH)"
  unfolding artifacts_full [OF assms] table_filenames
  by (simp add: GRAPHPATH_eq path_join_def startswith_sep_def endswith_sep_def dirname_def
      rstrip_sep_def)

text \<open>The amended C1 at the sample dataset.\<close>

theorem full_dataset_seventeen_artifacts_witness:
  "try_load (serving sample_df) DATASET_URL = Inr sample_df
   \<and> set expected_columns \<subseteq> set (columns sample_df)
   \<and> length (artifacts (main (serving sample_df))) = 17
   \<and> distinct (artifacts (main (serving sample_df)))"
  using full_dataset_seventeen_artifacts [OF try_load_serving sample_complete]
    try_load_serving [of sample_df DATASET_URL] sample_complete
  by blast

subsection \<open>C2: which steps are guarded\<close>




subsection \<open>C3: a dataset that misses one expected column\<close>









subsection \<open>C4: acquisition failure\<close>

lemma try_load_fails: "acquisition_fails e url \<Longrightarrow> \<exists>x. try_load e url = Inl x"
  by (auto simp: acquisition_fails_def try_load_def raise_for_status_def split: sum.splits)

text \<open>
  C4: on any acquisition failure (a network error, an HTTP error status, a UTF-8 decode
  failure or a CSV parse failure), \<^verbatim>\<open>load_data_from_url\<close> catches the exception, prints it
  and returns \<^verbatim>\<open>None\<close>; the run then prints its diagnostic and exits before any analysis
  step: no figure is opened and no image is written.
\<close>

theorem acquisition_failure:
  "(acquisition_fails e url \<longrightarrow>
      (\<exists>x. load_data_from_url e url w =
              (None, print (''Erro ao carregar dados da URL: '' @ str x) w)))
   \<and> (acquisition_fails e DATASET_URL \<longrightarrow>
        (\<exists>x. main e =
           Exited \<lparr>mounts = [DRIVE_MOUNT_PATH], dirs = [GRAPHPATH, SUMMARYPATH], files = [],
                   figures = [],
                   stdout = [''Erro ao carregar dados da URL: '' @ str x, exit_message]\<rparr>)
        \<and> artifacts (main e) = [])"
proof (intro conjI impI)
  assume "acquisition_fails e url"
  then obtain x where "try_load e url = Inl x"
    using try_load_fails by blast
  then have "load_data_from_url e url w =
      (None, print (''Erro ao carregar dados da URL: '' @ str x) w)"
    by (simp add: load_data_from_url_def)
  then show "\<exists>x. load_data_from_url e url w =
      (None, print (''Erro ao carregar dados da URL: '' @ str x) w)"
    by (rule exI)
next
  assume "acquisition_fails e DATASET_URL"
  then obtain x where x: "try_load e DATASET_URL = Inl x"
    using try_load_fails by blast
  show "\<exists>x. main e =
           Exited \<lparr>mounts = [DRIVE_MOUNT_PATH], dirs = [GRAPHPATH, SUMMARYPATH], files = [],
                   figures = [],
                   stdout = [''Erro ao carregar dados da URL: '' @ str x, exit_message]\<rparr>"
    unfolding main_failed [OF x] started_def by (rule exI [of _ x]) simp
  show "artifacts (main e) = []"
    by (simp add: main_failed [OF x] artifacts_def started_def)
qed

lemma not_found_fails: "acquisition_fails not_found DATASET_URL"
  by (simp add: acquisition_fails_def not_found_def)

text \<open>C4 at a server that answers 404.\<close>

theorem acquisition_failure_witness:
  "acquisition_fails not_found DATASET_URL
   \<and> artifacts (main not_found) = []
   \<and> (\<exists>x. load_data_from_url not_found DATASET_URL boot =
              (None, print (''Erro ao carregar dados da URL: '' @ str x) boot))"
  using acquisition_failure [of not_found DATASET_URL boot] not_found_fails by blast

subsection \<open>C5: the categorical encoder\<close>

text \<open>
  C5, as stated, fails: when the dataset already has a column \<^verbatim>\<open>CategoriaPrompt_encoded\<close>,
  the encoder appends no column; it writes the codes over that column, and the dataset has
  as many columns as before.
\<close>

theorem encoding_overwrites_counterexample:
  "getitem clash_df ''CategoriaPrompt'' = Some (ObjCol [''b'', ''a''])
   \<and> frame (encode (with_frame started clash_df)) =
       [(''CategoriaPrompt'', ObjCol [''b'', ''a'']),
        (''CategoriaPrompt_encoded'', IntCol [1, 0])]
   \<and> length (columns (frame (encode (with_frame started clash_df)))) = length (columns clash_df)"
  by (simp add: encode_def with_frame_def clash_df_def getitem_def columns_def
      label_codes_def unique_def)

text \<open>
  C5, amended: when the dataset has the column \<^verbatim>\<open>CategoriaPrompt\<close>, the encoder sets the
  column \<^verbatim>\<open>CategoriaPrompt_encoded\<close> to integer codes that are a function of the source column
  alone, with as many distinct codes as the source column has distinct values; the column
  is appended as a new last column when the dataset has no column of that name, and takes
  the place of that column otherwise; every column of another name is unchanged and nothing
  is printed. When \<^verbatim>\<open>CategoriaPrompt\<close> is absent, the encoder prints a diagnostic and leaves
  the dataset unchanged.
\<close>

theorem encoder_sets_code_column:
  "case getitem (frame s) ''CategoriaPrompt'' of
     None \<Rightarrow> encode s = print encoder_message s \<and> frame (encode s) = frame s
   | Some c \<Rightarrow>
       (\<exists>codes. fit_transform c = IntCol codes
          \<and> getitem (frame (encode s)) ''CategoriaPrompt_encoded'' = Some (IntCol codes)
          \<and> card (set codes) = nunique c
          \<and> (''CategoriaPrompt_encoded'' \<notin> set (columns (frame s)) \<longrightarrow>
               frame (encode s) = frame s @ [(''CategoriaPrompt_encoded'', IntCol codes)])
          \<and> (''CategoriaPrompt_encoded'' \<in> set (columns (frame s)) \<longrightarrow>
               columns (frame (encode s)) = columns (frame s)))
       \<and> (\<forall>k. k \<noteq> ''CategoriaPrompt_encoded'' \<longrightarrow>
             getitem (frame (encode s)) k = getitem (frame s) k)
       \<and> stdout (encode s) = stdout s"
proof (cases "getitem (frame s) ''CategoriaPrompt''")
  case None
  then show ?thesis
    by (simp add: encode_def encoder_message_def print_def)
next
  case (Some c)
  obtain codes where codes: "fit_transform c = IntCol codes" "card (set codes) = nunique c"
    using fit_transform_codes by blast
  have f: "frame (encode s) = setitem (frame s) ''CategoriaPrompt_encoded'' (IntCol codes)"
    by (simp add: encode_def Some codes)
  have "\<exists>codes. fit_transform c = IntCol codes
          \<and> getitem (frame (encode s)) ''CategoriaPrompt_encoded'' = Some (IntCol codes)
          \<and> card (set codes) = nunique c
          \<and> (''CategoriaPrompt_encoded'' \<notin> set (columns (frame s)) \<longrightarrow>
               frame (encode s) = frame s @ [(''CategoriaPrompt_encoded'', IntCol codes)])
          \<and> (''CategoriaPrompt_encoded'' \<in> set (columns (frame s)) \<longrightarrow>
               columns (frame (encode s)) = columns (frame s))"
    by (rule exI [of _ codes]) (simp add: codes f getitem_setitem setitem_absent columns_setitem)
  moreover have "\<forall>k. k \<noteq> ''CategoriaPrompt_encoded'' \<longrightarrow>
             getitem (frame (encode s)) k = getitem (frame s) k"
    by (simp add: f getitem_setitem)
  moreover have "stdout (encode s) = stdout s"
    by (simp add: encode_def Some)
  ultimately show ?thesis
    by (simp add: Some)
qed

text \<open>
  The amended C5 on the sample dataset, where the codes are appended as an eleventh column,
  and on the sample dataset without \<^verbatim>\<open>CategoriaPrompt\<close>, where only the message is printed.
\<close>

theorem encoder_sets_code_column_witness:
  "getitem sample_df ''CategoriaPrompt'' = Some (ObjCol [''tecnico'', ''criativo'', ''tecnico''])
   \<and> ''CategoriaPrompt_encoded'' \<notin> set (columns sample_df)
   \<and> frame (encode (with_frame started sample_df)) =
       sample_df @ [(''CategoriaPrompt_encoded'', IntCol [1, 0, 1])]
   \<and> nunique (ObjCol [''tecnico'', ''criativo'', ''tecnico'']) = card (set [1, 0, 1 :: int])
   \<and> getitem no_categoria ''CategoriaPrompt'' = None
   \<and> encode (with_frame started no_categoria) =
       print encoder_message (with_frame started no_categoria)"
proof -
  let ?n = "with_frame started no_categoria"
  have "getitem (frame ?n) ''CategoriaPrompt'' = None"
    by (simp add: with_frame_def getitem_def no_categoria_def sample_df_def)
  with encoder_sets_code_column [of ?n]
  have n: "getitem no_categoria ''CategoriaPrompt'' = None"
    "encode ?n = print encoder_message ?n"
    by (simp_all add: with_frame_def)
  let ?s = "with_frame started sample_df"
  let ?c = "ObjCol [''tecnico'', ''criativo'', ''tecnico'']"
  have f: "frame ?s = sample_df"
    by (simp add: with_frame_def)
  have g: "getitem sample_df ''CategoriaPrompt'' = Some ?c"
    by (simp add: getitem_def sample_df_def)
  have a: "''CategoriaPrompt_encoded'' \<notin> set (columns sample_df)"
    by (simp add: columns_def sample_df_def)
  from encoder_sets_code_column [of ?s] obtain codes where
    "fit_transform ?c = IntCol codes" "card (set codes) = nunique ?c"
    "''CategoriaPrompt_encoded'' \<notin> set (columns sample_df) \<longrightarrow>
       frame (encode ?s) = sample_df @ [(''CategoriaPrompt_encoded'', IntCol codes)]"
    unfolding f g by auto
  with a have "frame (encode ?s) = sample_df @ [(''CategoriaPrompt_encoded'', IntCol [1, 0, 1])]"
    "nunique ?c = card (set [1, 0, 1 :: int])"
    by (simp_all add: sample_codes)
  with g a n show ?thesis by blast
qed

subsection \<open>C6: the correlation heatmap\<close>




subsection \<open>C7: what changes the dataset\<close>

lemma frame_emit: "frame (emit fn g s) = frame s"
  by (simp add: emit_def makedirs_def)

lemma getitem_augmented:
  "k \<noteq> ''CategoriaPrompt_encoded'' \<Longrightarrow> getitem (augmented df) k = getitem df k"
  by (simp add: augmented_def getitem_setitem split: option.splits)

text \<open>
  C7, as stated, fails: the one mutation need not be an addition. When the loaded dataset
  already has a column \<^verbatim>\<open>CategoriaPrompt_encoded\<close>, the run writes the codes over it: a
  loaded column is modified and no column is added.
\<close>

theorem loaded_column_overwritten_counterexample:
  "getitem clash_df ''CategoriaPrompt_encoded'' = Some (ObjCol [''x'', ''y''])
   \<and> dataset_of (main (serving clash_df)) =
       Some [(''CategoriaPrompt'', ObjCol [''b'', ''a'']),
             (''CategoriaPrompt_encoded'', IntCol [1, 0])]"
  by (simp add: main_loaded [OF try_load_serving] frame_analyses frame_encode with_frame_def
      augmented_def clash_df_def getitem_def label_codes_def unique_def)

text \<open>
  C7, amended: for every run, the in-memory dataset is mutated at most once, by the
  assignment of the single derived column \<^verbatim>\<open>CategoriaPrompt_encoded\<close> during the encoding
  stage, which adds that column or, when the loaded dataset already has a column of that
  name, replaces it; every column of another name stays as loaded. No chart generator
  (\<^verbatim>\<open>generate_histogram\<close>, \<^verbatim>\<open>generate_boxplot\<close>, \<^verbatim>\<open>generate_scatterplot\<close>,
  \<^verbatim>\<open>generate_violinplot\<close>, \<^verbatim>\<open>generate_heatmap\<close>) modifies any column or row of the dataset
  passed to it, and neither does the sequence of analysis steps.
\<close>

theorem dataset_changed_by_encoding_only:
  "frame (generate_histogram col t fn bins kde s) = frame s
   \<and> frame (generate_boxplot x y t fn hue s) = frame s
   \<and> frame (generate_scatterplot x y t fn hue style s) = frame s
   \<and> frame (generate_violinplot x y t fn hue split s) = frame s
   \<and> frame (generate_heatmap t fn annot s) = frame s
   \<and> frame (analyses s) = frame s
   \<and> (try_load e DATASET_URL = Inr df \<longrightarrow>
        (\<exists>s'. main e = Completed s'
           \<and> frame s' =
               (case getitem df ''CategoriaPrompt'' of
                  None \<Rightarrow> df
                | Some c \<Rightarrow> setitem df ''CategoriaPrompt_encoded'' (fit_transform c))
           \<and> (\<forall>k. k \<noteq> ''CategoriaPrompt_encoded'' \<longrightarrow> getitem (frame s') k = getitem df k)))"
proof (intro conjI impI)
  assume l: "try_load e DATASET_URL = Inr df"
  have "frame (analyses (encode (with_frame started df))) = augmented df"
    by (simp add: frame_analyses frame_encode with_frame_def)
  then show "\<exists>s'. main e = Completed s'
           \<and> frame s' =
               (case getitem df ''CategoriaPrompt'' of
                  None \<Rightarrow> df
                | Some c \<Rightarrow> setitem df ''CategoriaPrompt_encoded'' (fit_transform c))
           \<and> (\<forall>k. k \<noteq> ''CategoriaPrompt_encoded'' \<longrightarrow> getitem (frame s') k = getitem df k)"
    unfolding main_loaded [OF l]
    by (intro exI [of _ "analyses (encode (with_frame started df))"])
       (auto simp: getitem_augmented, simp add: augmented_def)
qed (simp_all add: generate_emit frame_emit frame_analyses)

text \<open>The amended C7 on the sample dataset: the final dataset is the loaded one plus the codes.\<close>

theorem dataset_changed_by_encoding_only_witness:
  "try_load (serving sample_df) DATASET_URL = Inr sample_df
   \<and> (\<exists>s'. main (serving sample_df) = Completed s'
          \<and> frame s' = sample_df @ [(''CategoriaPrompt_encoded'', IntCol [1, 0, 1])])"
proof -
  have l: "try_load (serving sample_df) DATASET_URL = Inr sample_df"
    by (rule try_load_serving)
  have "(case getitem sample_df ''CategoriaPrompt'' of
           None \<Rightarrow> sample_df
         | Some c \<Rightarrow> setitem sample_df ''CategoriaPrompt_encoded'' (fit_transform c)) =
        sample_df @ [(''CategoriaPrompt_encoded'', IntCol [1, 0, 1])]"
    by (simp add: getitem_def sample_df_def sample_codes)
  with l dataset_changed_by_encoding_only [where e = "serving sample_df" and df = sample_df]
  show ?thesis
    by metis
qed

subsection \<open>C8: the order of the codes\<close>

text \<open>
  C8: when the column \<^verbatim>\<open>CategoriaPrompt\<close> is present, the derived column assigns to every
  row the position, counted from 0, of its source value in the ascending list of the
  distinct source values (for strings: in lexicographic order). Only one coding does so,
  hence the codes are determined by the source values, whatever their order of appearance.
\<close>

theorem codes_follow_sorted_order:
  assumes "try_load e DATASET_URL = Inr df" and "getitem df ''CategoriaPrompt'' = Some c"
  shows "\<exists>s codes. main e = Completed s
           \<and> getitem (frame s) ''CategoriaPrompt_encoded'' = Some (IntCol codes)
           \<and> column_coded_by_rank c codes
           \<and> (\<forall>codes'. column_coded_by_rank c codes' \<longrightarrow> codes' = codes)"
proof -
  obtain codes where codes: "fit_transform c = IntCol codes" "column_coded_by_rank c codes"
    using fit_transform_codes by blast
  have "frame (analyses (encode (with_frame started df))) = augmented df"
    by (simp add: frame_analyses frame_encode with_frame_def)
  then have "getitem (frame (analyses (encode (with_frame started df))))
      ''CategoriaPrompt_encoded'' = Some (IntCol codes)"
    by (simp add: augmented_def assms(2) getitem_setitem codes(1))
  moreover have "\<forall>codes'. column_coded_by_rank c codes' \<longrightarrow> codes' = codes"
    using codes(2) column_coded_by_rank_unique by blast
  ultimately show ?thesis
    using codes(2) main_loaded [OF assms(1)] by blast
qed

text \<open>
  C8 on the sample dataset: \<^verbatim>\<open>criativo\<close> sorts before \<^verbatim>\<open>tecnico\<close> and gets the code 0,
  although \<^verbatim>\<open>tecnico\<close> appears first.
\<close>

theorem codes_follow_sorted_order_witness:
  "try_load (serving sample_df) DATASET_URL = Inr sample_df
   \<and> getitem sample_df ''CategoriaPrompt'' = Some (ObjCol [''tecnico'', ''criativo'', ''tecnico''])
   \<and> (\<exists>s. main (serving sample_df) = Completed s
          \<and> getitem (frame s) ''CategoriaPrompt_encoded'' = Some (IntCol [1, 0, 1]))"
proof -
  let ?c = "ObjCol [''tecnico'', ''criativo'', ''tecnico'']"
  have l: "try_load (serving sample_df) DATASET_URL = Inr sample_df"
    by (rule try_load_serving)
  have g: "getitem sample_df ''CategoriaPrompt'' = Some ?c"
    by (simp add: getitem_def sample_df_def)
  have r: "column_coded_by_rank ?c [1, 0, 1]"
    using label_codes_by_rank [of "[''tecnico'', ''criativo'', ''tecnico'']"]
    by (simp add: sample_codes)
  from codes_follow_sorted_order [OF l g] obtain s codes where
    "main (serving sample_df) = Completed s"
    "getitem (frame s) ''CategoriaPrompt_encoded'' = Some (IntCol codes)"
    "\<forall>codes'. column_coded_by_rank ?c codes' \<longrightarrow> codes' = codes"
    by blast
  with r have "main (serving sample_df) = Completed s
      \<and> getitem (frame s) ''CategoriaPrompt_encoded'' = Some (IntCol [1, 0, 1])"
    by blast
  with l g show ?thesis by blast
qed

subsection \<open>C9: the scatterplots and the category column\<close>






subsection \<open>C10: the summaries directory\<close>

lemma table_dirname:
  assumes "c \<in> set chart_table"
  shows "dirname (path_join GRAPHPATH (filename c)) = GRAPHPATH"
proof -
  have "\<forall>f \<in> set (map filename chart_table). dirname (path_join GRAPHPATH f) = GRAPHPATH"
    unfolding table_filenames
    by (simp add: GRAPHPATH_eq path_join_def startswith_sep_def endswith_sep_def dirname_def
        rstrip_sep_def)
  with assms show ?thesis by simp
qed

lemma dirs_perform_table:
  "c \<in> set chart_table \<Longrightarrow> GRAPHPATH \<in> set (dirs s) \<Longrightarrow> dirs (perform c s) = dirs s"
  by (simp add: perform_def emit_def makedirs_def print_def table_dirname)

lemma dirs_fold_perform:
  "set cs \<subseteq> set chart_table \<Longrightarrow> GRAPHPATH \<in> set (dirs s) \<Longrightarrow> dirs (fold perform cs s) = dirs s"
  by (induction cs arbitrary: s) (simp_all add: dirs_perform_table)

lemma dirs_encode: "dirs (encode s) = dirs s"
  by (simp add: encode_def print_def split: option.splits)

lemma made_main: "made (main e) = [GRAPHPATH, SUMMARYPATH]"
proof (cases "try_load e DATASET_URL")
  case (Inl x)
  then show ?thesis
    by (simp add: main_failed started_def)
next
  case (Inr df)
  then show ?thesis
    by (simp add: main_loaded analyses_table print_def dirs_fold_perform dirs_encode
        with_frame_def started_def)
qed

lemma artifacts_dirname:
  assumes "p \<in> set (artifacts (main e))"
  shows "dirname p = GRAPHPATH"
proof (cases "try_load e DATASET_URL")
  case (Inl x)
  with assms show ?thesis
    by (simp add: main_failed artifacts_def started_def)
next
  case (Inr df)
  with assms obtain c where "c \<in> set chart_table" "p = path_join GRAPHPATH (filename c)"
    by (auto simp: artifacts_main)
  then show ?thesis
    by (simp add: table_dirname)
qed

text \<open>
  C10: every run creates the summaries directory \<^verbatim>\<open>/content/drive/MyDrive/sumarios\<close> at
  startup and writes no file into it: every file of a run is an image that \<^verbatim>\<open>save_fig\<close>
  writes directly under the graphics directory.
\<close>

theorem summaries_directory_unused:
  "SUMMARYPATH \<in> set (made (main e))
   \<and> SUMMARYPATH = ''/content/drive/MyDrive/sumarios''
   \<and> (\<forall>p \<in> set (artifacts (main e)). dirname p = GRAPHPATH \<and> dirname p \<noteq> SUMMARYPATH)"
  using artifacts_dirname [of _ e]
  by (auto simp: made_main SUMMARYPATH_eq GRAPHPATH_eq)

text \<open>C10 at the heatmap of a run on the sample dataset.\<close>

theorem summaries_directory_unused_witness:
  "path_join GRAPHPATH ''7_heatmap.png'' \<in> set (artifacts (main (serving sample_df)))
   \<and> dirname (path_join GRAPHPATH ''7_heatmap.png'') = GRAPHPATH
   \<and> dirname (path_join GRAPHPATH ''7_heatmap.png'') \<noteq> SUMMARYPATH"
proof -
  have "path_join GRAPHPATH ''7_heatmap.png'' \<in> set (artifacts (main (serving sample_df)))"
    by (simp add: artifacts_full [OF try_load_serving sample_complete] table_filenames)
  with summaries_directory_unused [of "serving sample_df"] show ?thesis
    by blast
qed


end
